theory Spec2Isabelle
  imports Main "HOL-Library.Char_ord" "HOL-Library.List_Lexorder"
begin

section \<open>Python values, exceptions and dictionaries\<close>

text \<open>
  The values that flow through \<^verbatim>\<open>arthur/jobs.py\<close>: \<^verbatim>\<open>None\<close>, numbers (epoch
  timestamps, offsets), strings and the datetime objects built by
  \<^verbatim>\<open>unixtime_to_datetime\<close>. Epoch timestamps are numbers of seconds, modelled as
  unbounded integers.
\<close>

datatype pyval = PNone | PInt int | PStr string | PDatetime int

text \<open>
  The exceptions, all subclasses of Python's \<^verbatim>\<open>Exception\<close>; the string is the
  message, so that "the same exception" can be told from another one of its class.
\<close>

datatype exn =
    AttributeError string
  | ValueError string
  | KeyError string
  | TypeError string
  | InvalidDateError string
  | NotFoundError string
  | OtherError string

type_synonym dict = "string \<rightharpoonup> pyval"
type_synonym item = dict

text \<open>
  A lazy sequence of items: the items it yields, then exhaustion (None) or a
  raise. A source that yields for ever is outside the model.
\<close>

type_synonym stream = "item list \<times> exn option"

text \<open>Python truthiness, as used by \<^verbatim>\<open>if x:\<close> and \<^verbatim>\<open>not x\<close>.\<close>

fun truthy :: "pyval \<Rightarrow> bool" where
  "truthy PNone = False"
| "truthy (PInt i) = (i \<noteq> 0)"
| "truthy (PStr s) = (s \<noteq> [])"
| "truthy (PDatetime t) = True"

text \<open>Python's \<^verbatim>\<open>a < b\<close>: defined inside one type, a TypeError across types.\<close>

fun py_lt :: "pyval \<Rightarrow> pyval \<Rightarrow> exn + bool" where
  "py_lt (PInt a) (PInt b) = Inr (a < b)"
| "py_lt (PStr a) (PStr b) = Inr (a < b)"
| "py_lt (PDatetime a) (PDatetime b) = Inr (a < b)"
| "py_lt a b = Inl (TypeError ''< not supported between these instances'')"

text \<open>
  \<^verbatim>\<open>grimoirelab.toolkit.datetime.unixtime_to_datetime\<close>: a number becomes the
  datetime of that epoch second in UTC, when that second lies in the years 1 to
  9999 a datetime can hold; a number outside them, and anything that is not a
  number, raises InvalidDateError.
\<close>

fun unixtime_to_datetime :: "pyval \<Rightarrow> exn + pyval" where
  "unixtime_to_datetime (PInt t) =
     (if - 62135596800 \<le> t \<and> t \<le> 253402300799 then Inr (PDatetime t)
      else Inl (InvalidDateError ''invalid date''))"
| "unixtime_to_datetime v = Inl (InvalidDateError ''invalid date'')"

fun is_AttributeError :: "exn \<Rightarrow> bool" where
  "is_AttributeError (AttributeError m) = True"
| "is_AttributeError e = False"

section \<open>The data model\<close>

record JobResult =
  job_id :: string
  task_id :: string
  backend :: string
  category :: string
  last_uuid :: pyval
  max_date :: pyval
  nitems :: int
  offset :: pyval
  nresumed :: int

text \<open>
  A Perceval backend class: its two capability flags, and what
  \<^verbatim>\<open>perceval.fetch\<close> and \<^verbatim>\<open>perceval.fetch_from_archive\<close> yield for it. Perceval
  is outside the repository, so its behaviour is a parameter: the first argument
  is the number of fetches started so far, so that a second attempt may see
  another outcome than the first.
\<close>

record bklass =
  has_archiving :: bool
  has_resuming :: bool
  perceval_fetch :: "nat \<Rightarrow> dict \<Rightarrow> string option \<Rightarrow> stream"
  perceval_fetch_from_archive ::
    "nat \<Rightarrow> dict \<Rightarrow> string option \<Rightarrow> string \<Rightarrow> pyval \<Rightarrow> stream"

text \<open>
  The module's environment: \<^verbatim>\<open>__version__\<close> of \<^verbatim>\<open>arthur._version\<close>, the
  registry \<^verbatim>\<open>perceval.find_backends(perceval.backends)[0]\<close>, and the constructor
  \<^verbatim>\<open>perceval.archive.ArchiveManager\<close>. The constructor works on the file system
  and may raise: given the number of managers opened so far and the path, it
  tells the exception raised, or None when the manager is built.
\<close>

record env =
  version :: string
  backends :: "string \<rightharpoonup> bklass"
  ArchiveManager :: "nat \<Rightarrow> string \<Rightarrow> exn option"

text \<open>The keyword dictionaries of \<^verbatim>\<open>execute_perceval_job\<close>, by their keys.\<close>

record archive_args =
  archive_path :: "string option"
  fetch_from_archive :: bool
  archived_after :: pyval

record sched_args =
  max_retries :: int

text \<open>\<^verbatim>\<open>pickle.dumps\<close> is injective: the serialised item is the item, wrapped.\<close>

datatype pickled = Pickled item


text \<open>
  What lives outside the job object: the dictionaries the caller and \<^verbatim>\<open>run\<close>
  hold by reference (a reference is an index into \<open>heap\<close>), the Redis lists
  behind \<^verbatim>\<open>conn\<close>, the number of fetches started and the number of archive
  managers opened so far.
\<close>

type_synonym ref = nat

record world =
  heap :: "dict list"
  redis :: "string \<Rightarrow> pickled list"
  nfetch :: nat
  nopen :: nat

record PercevalJob =
  bklass :: bklass
  job_id :: string
  task_id :: string
  backend :: string
  qitems :: string
  retries :: int
  archive_manager :: "string option"
  category :: string
  result :: JobResult

section \<open>The operations\<close>

subsection \<open>Dictionaries by reference, the Redis list\<close>

definition dict_copy :: "world \<Rightarrow> ref \<Rightarrow> ref \<times> world" where
  "dict_copy w r = (length (heap w), w\<lparr>heap := heap w @ [heap w ! r]\<rparr>)"

definition dict_set :: "world \<Rightarrow> ref \<Rightarrow> string \<Rightarrow> pyval \<Rightarrow> world" where
  "dict_set w r k v = w\<lparr>heap := (heap w)[r := (heap w ! r)(k \<mapsto> v)]\<rparr>"

definition rpush :: "world \<Rightarrow> string \<Rightarrow> pickled \<Rightarrow> world" where
  "rpush w q v = w\<lparr>redis := (redis w)(q := redis w q @ [v])\<rparr>"

subsection \<open>JobResult and PercevalJob\<close>

definition JobResult_init ::
  "string \<Rightarrow> string \<Rightarrow> string \<Rightarrow> string \<Rightarrow> pyval \<Rightarrow> pyval \<Rightarrow> int \<Rightarrow> pyval \<Rightarrow> int \<Rightarrow> JobResult"
where
  "JobResult_init j t b c u d n off nres =
     \<lparr>JobResult.job_id = j, JobResult.task_id = t, JobResult.backend = b,
      JobResult.category = c, last_uuid = u, max_date = d, nitems = n, offset = off,
      nresumed = nres\<rparr>"

definition PercevalJob_init ::
  "env \<Rightarrow> string \<Rightarrow> string \<Rightarrow> string \<Rightarrow> string \<Rightarrow> string \<Rightarrow> exn + PercevalJob"
where
  "PercevalJob_init env j t b c q =
     (case backends env b of
        None \<Rightarrow> Inl (NotFoundError b)
      | Some k \<Rightarrow>
          Inr \<lparr>bklass = k, job_id = j, task_id = t, backend = b, qitems = q, retries = 0,
               archive_manager = None, category = c,
               result = JobResult_init j t b c PNone PNone 0 PNone 0\<rparr>)"

text \<open>
  The archive manager is known by its path. When the constructor raises, the
  assignment of line 141 does not happen.
\<close>

definition initialize_archive_manager ::
  "env \<Rightarrow> PercevalJob \<Rightarrow> world \<Rightarrow> string option \<Rightarrow> (exn + PercevalJob) \<times> world"
where
  "initialize_archive_manager env job w path =
     (if path = Some [] then (Inl (ValueError ''Archive manager path cannot be empty''), w)
      else (case path of
              None \<Rightarrow> (Inr job, w)
            | Some p \<Rightarrow>
                (case ArchiveManager env (nopen w) p of
                   Some e \<Rightarrow> (Inl e, w\<lparr>nopen := nopen w + 1\<rparr>)
                 | None \<Rightarrow>
                     (Inr (job\<lparr>archive_manager := Some p\<rparr>), w\<lparr>nopen := nopen w + 1\<rparr>))))"

subsection \<open>The metadata decorator and \<^verbatim>\<open>_execute\<close>\<close>

definition metadata :: "env \<Rightarrow> PercevalJob \<Rightarrow> stream \<Rightarrow> stream" where
  "metadata env job s =
     (map (\<lambda>item. item(''arthur_version'' \<mapsto> PStr (version env),
                       ''job_id'' \<mapsto> PStr (job_id job))) (fst s),
      snd s)"

text \<open>The body of \<^verbatim>\<open>_execute\<close>, before the decorator: which Perceval call is made.\<close>

definition execute_body ::
  "PercevalJob \<Rightarrow> world \<Rightarrow> ref \<Rightarrow> archive_args option \<Rightarrow> stream \<times> world"
where
  "execute_body job w args aa =
     (let w1 = w\<lparr>nfetch := nfetch w + 1\<rparr> in
      case aa of
        None \<Rightarrow>
          (perceval_fetch (bklass job) (nfetch w) (heap w ! args) (archive_manager job), w1)
      | Some a \<Rightarrow>
          if \<not> fetch_from_archive a
          then (perceval_fetch (bklass job) (nfetch w) (heap w ! args) (archive_manager job), w1)
          else (perceval_fetch_from_archive (bklass job) (nfetch w) (heap w ! args)
                  (archive_manager job) (category job) (archived_after a), w1))"

definition execute ::
  "env \<Rightarrow> PercevalJob \<Rightarrow> world \<Rightarrow> ref \<Rightarrow> archive_args option \<Rightarrow> stream \<times> world"
where
  "execute env job w args aa =
     (case execute_body job w args aa of (s, w1) \<Rightarrow> (metadata env job s, w1))"

subsection \<open>\<^verbatim>\<open>PercevalJob.run\<close>\<close>

text \<open>Lines 166 and 167: the archive manager, when archive arguments are given.\<close>

definition archive_setup ::
  "env \<Rightarrow> PercevalJob \<Rightarrow> world \<Rightarrow> archive_args option \<Rightarrow> (exn + PercevalJob) \<times> world"
where
  "archive_setup env job w aa =
     (case aa of
        None \<Rightarrow> (Inr job, w)
      | Some a \<Rightarrow> initialize_archive_manager env job w (archive_path a))"

text \<open>
  Lines 164 to 178: the copy of the arguments, the archive manager, and either
  the fresh result or the resume parameters. An exception leaves the job as the
  statements before it made it.
\<close>

definition run_prepare ::
  "env \<Rightarrow> PercevalJob \<Rightarrow> world \<Rightarrow> ref \<Rightarrow> archive_args option \<Rightarrow> bool
     \<Rightarrow> (exn + ref) \<times> PercevalJob \<times> world"
where
  "run_prepare env job w backend_args aa resume =
     (case dict_copy w backend_args of (args, w0) \<Rightarrow>
      (case archive_setup env job w0 aa of
         (Inl e, w1) \<Rightarrow> (Inl e, job, w1)
       | (Inr job1, w1) \<Rightarrow>
           if \<not> resume
           then (Inr args,
                 job1\<lparr>result := JobResult_init (job_id job1) (task_id job1) (backend job1)
                                   (category job1) PNone PNone 0 PNone 0\<rparr>,
                 w1)
           else
             (case (if truthy (max_date (result job1))
                    then (case unixtime_to_datetime (max_date (result job1)) of
                            Inl e \<Rightarrow> Inl e
                          | Inr d \<Rightarrow> Inr (dict_set w1 args ''from_date'' d))
                    else Inr w1) of
                Inl e \<Rightarrow> (Inl e, job1, w1)
              | Inr w2 \<Rightarrow>
                  (Inr args,
                   job1\<lparr>result := (result job1)\<lparr>nresumed := nresumed (result job1) + 1\<rparr>\<rparr>,
                   (if truthy (offset (result job1))
                    then dict_set w2 args ''offset'' (offset (result job1))
                    else w2)))))"

text \<open>Lines 183 to 189: what one item does to the result.\<close>

definition advance :: "JobResult \<Rightarrow> item \<Rightarrow> exn option \<times> JobResult" where
  "advance r item =
     (let r1 = r\<lparr>nitems := nitems r + 1\<rparr> in
      case item ''uuid'' of
        None \<Rightarrow> (Some (KeyError ''uuid''), r1)
      | Some u \<Rightarrow>
          (let r2 = r1\<lparr>last_uuid := u\<rparr> in
           case item ''updated_on'' of
             None \<Rightarrow> (Some (KeyError ''updated_on''), r2)
           | Some t \<Rightarrow>
               (case (if \<not> truthy (max_date r2) then Inr True else py_lt (max_date r2) t) of
                  Inl e \<Rightarrow> (Some e, r2)
                | Inr b \<Rightarrow>
                    (let r3 = (if b then r2\<lparr>max_date := t\<rparr> else r2) in
                     case item ''offset'' of
                       None \<Rightarrow> (None, r3)
                     | Some x \<Rightarrow> (None, r3\<lparr>offset := x\<rparr>)))))"

text \<open>The loop body: the push to the queue, then the result.\<close>

definition store_item :: "PercevalJob \<Rightarrow> world \<Rightarrow> item \<Rightarrow> exn option \<times> PercevalJob \<times> world" where
  "store_item job w item =
     (let w1 = rpush w (qitems job) (Pickled item) in
      case advance (result job) item of (e, r) \<Rightarrow> (e, job\<lparr>result := r\<rparr>, w1))"

text \<open>
  The \<^verbatim>\<open>for\<close> loop over a stream: the items in order, then the stream's own end,
  which is exhaustion or the exception the source raised.
\<close>

fun consume ::
  "PercevalJob \<Rightarrow> world \<Rightarrow> item list \<Rightarrow> exn option \<Rightarrow> exn option \<times> PercevalJob \<times> world"
where
  "consume job w [] fin = (fin, job, w)"
| "consume job w (item # items) fin =
     (case store_item job w item of
        (Some e, job1, w1) \<Rightarrow> (Some e, job1, w1)
      | (None, job1, w1) \<Rightarrow> consume job1 w1 items fin)"

definition run ::
  "env \<Rightarrow> PercevalJob \<Rightarrow> world \<Rightarrow> ref \<Rightarrow> archive_args option \<Rightarrow> bool
     \<Rightarrow> exn option \<times> PercevalJob \<times> world"
where
  "run env job w backend_args aa resume =
     (case run_prepare env job w backend_args aa resume of
        (Inl e, job1, w1) \<Rightarrow> (Some e, job1, w1)
      | (Inr args, job1, w1) \<Rightarrow>
          (case execute env job1 w1 args aa of
             ((items, fin), w2) \<Rightarrow> consume job1 w2 items fin))"

subsection \<open>\<^verbatim>\<open>execute_perceval_job\<close>\<close>

text \<open>
  The \<^verbatim>\<open>while run_job\<close> loop, entered with the current \<^verbatim>\<open>resume\<close> and
  \<^verbatim>\<open>failures\<close>. \<^verbatim>\<open>sched_args\<close> defaults to None, and subscripting None is a
  TypeError.
\<close>

function run_loop ::
  "env \<Rightarrow> PercevalJob \<Rightarrow> world \<Rightarrow> ref \<Rightarrow> archive_args option \<Rightarrow> sched_args option
     \<Rightarrow> bool \<Rightarrow> int \<Rightarrow> (exn + JobResult) \<times> world"
where
  "run_loop env job w backend_args aa sa resume failures =
     (case run env job w backend_args aa resume of
        (None, job1, w1) \<Rightarrow> (Inr (result job1), w1)
      | (Some e, job1, w1) \<Rightarrow>
          if is_AttributeError e then (Inl e, w1)
          else if \<not> has_resuming (bklass job1) then (Inl e, w1)
          else (case sa of
                  None \<Rightarrow> (Inl (TypeError ''NoneType object is not subscriptable''), w1)
                | Some s \<Rightarrow>
                    if failures + 1 \<ge> max_retries s then (Inl e, w1)
                    else run_loop env job1 w1 backend_args aa sa True (failures + 1)))"
  by pat_completeness auto
termination
  by (relation "measure (\<lambda>(env, job, w, backend_args, aa, sa, resume, failures).
        case sa of None \<Rightarrow> 0 | Some s \<Rightarrow> nat (max_retries s - failures))") auto

definition execute_perceval_job ::
  "env \<Rightarrow> world \<Rightarrow> string \<Rightarrow> string \<Rightarrow> ref \<Rightarrow> string \<Rightarrow> string \<Rightarrow> string
     \<Rightarrow> archive_args option \<Rightarrow> sched_args option \<Rightarrow> (exn + JobResult) \<times> world"
where
  "execute_perceval_job env w rq_job_id b backend_args q t c aa sa =
     (case PercevalJob_init env rq_job_id t b c q of
        Inl e \<Rightarrow> (Inl e, w)
      | Inr job \<Rightarrow>
          if \<not> has_archiving (bklass job) \<and> aa \<noteq> None
          then (Inl (AttributeError ''archive attributes set but archive is not supported''), w)
          else run_loop env job w backend_args aa sa False 0)"

section \<open>A concrete installation\<close>

text \<open>
  Items, backends and a caller's argument dictionary, used to run the
  definitions on concrete inputs. No archive manager can be built at the path
  \<^verbatim>\<open>/proc/nope\<close>. \<open>flaky\<close> loses its connection after two
  items on the first fetch and delivers a third item on any later one; \<open>strict\<close>
  misses a required argument; \<open>plain\<close> supports neither archiving nor resuming;
  \<open>mbox\<close> delivers a message dated at the epoch and one dated five seconds before.
\<close>

definition item_a :: item where
  "item_a = [''uuid'' \<mapsto> PStr ''a1'', ''updated_on'' \<mapsto> PInt 100]"

definition item_b :: item where
  "item_b = [''uuid'' \<mapsto> PStr ''b2'', ''updated_on'' \<mapsto> PInt 250, ''offset'' \<mapsto> PInt 2]"

definition item_c :: item where
  "item_c = [''uuid'' \<mapsto> PStr ''c3'', ''updated_on'' \<mapsto> PInt 300]"

definition item_epoch :: item where
  "item_epoch = [''uuid'' \<mapsto> PStr ''m1'', ''updated_on'' \<mapsto> PInt 0]"

definition item_before_epoch :: item where
  "item_before_epoch = [''uuid'' \<mapsto> PStr ''m2'', ''updated_on'' \<mapsto> PInt (- 5)]"

definition flaky :: bklass where
  "flaky =
     \<lparr>has_archiving = True, has_resuming = True,
      perceval_fetch = (\<lambda>n args mgr.
        if n = 0 then ([item_a, item_b], Some (OtherError ''connection reset''))
        else ([item_c], None)),
      perceval_fetch_from_archive = (\<lambda>n args mgr c after. ([item_a], None))\<rparr>"

definition strict :: bklass where
  "strict =
     \<lparr>has_archiving = True, has_resuming = True,
      perceval_fetch = (\<lambda>n args mgr. ([], Some (AttributeError ''uri''))),
      perceval_fetch_from_archive = (\<lambda>n args mgr c after. ([], Some (AttributeError ''uri'')))\<rparr>"

definition plain :: bklass where
  "plain =
     \<lparr>has_archiving = False, has_resuming = False,
      perceval_fetch = (\<lambda>n args mgr. ([item_a], None)),
      perceval_fetch_from_archive = (\<lambda>n args mgr c after. ([], None))\<rparr>"

definition mbox :: bklass where
  "mbox =
     \<lparr>has_archiving = True, has_resuming = True,
      perceval_fetch = (\<lambda>n args mgr. ([item_epoch, item_before_epoch], None)),
      perceval_fetch_from_archive = (\<lambda>n args mgr c after. ([], None))\<rparr>"

definition demo_env :: env where
  "demo_env =
     \<lparr>version = ''0.1.7'',
      backends = [''flaky'' \<mapsto> flaky, ''strict'' \<mapsto> strict, ''plain'' \<mapsto> plain,
                  ''mbox'' \<mapsto> mbox],
      ArchiveManager = (\<lambda>n p.
        if p = ''/proc/nope'' then Some (OtherError ''No such file or directory'')
        else None)\<rparr>"

definition demo_world :: world where
  "demo_world =
     \<lparr>heap = [[''from_date'' \<mapsto> PDatetime 50, ''offset'' \<mapsto> PInt 1]],
      redis = (\<lambda>q. []), nfetch = 0, nopen = 0\<rparr>"

definition demo_job :: "string \<Rightarrow> bklass \<Rightarrow> PercevalJob" where
  "demo_job b k =
     \<lparr>bklass = k, job_id = ''j1'', task_id = ''t1'', backend = b, qitems = ''items'',
      retries = 0, archive_manager = None, category = ''commit'',
      result = JobResult_init ''j1'' ''t1'' b ''commit'' PNone PNone 0 PNone 0\<rparr>"

text \<open>The job and the world as the first, failed run of \<open>flaky\<close> leaves them.\<close>

definition flaky_job1 :: PercevalJob where
  "flaky_job1 =
     (demo_job ''flaky'' flaky)
       \<lparr>result := JobResult_init ''j1'' ''t1'' ''flaky'' ''commit''
                     (PStr ''b2'') (PInt 250) 2 (PInt 2) 0\<rparr>"

definition tagged :: "item \<Rightarrow> item" where
  "tagged i = i(''arthur_version'' \<mapsto> PStr ''0.1.7'', ''job_id'' \<mapsto> PStr ''j1'')"

definition flaky_world1 :: world where
  "flaky_world1 =
     \<lparr>heap = [[''from_date'' \<mapsto> PDatetime 50, ''offset'' \<mapsto> PInt 1],
              [''from_date'' \<mapsto> PDatetime 50, ''offset'' \<mapsto> PInt 1]],
      redis = (\<lambda>q. [])(''items'' := [Pickled (tagged item_a), Pickled (tagged item_b)]),
      nfetch = 1, nopen = 0\<rparr>"

text \<open>The world after a run that copied the arguments, fetched, and pushed nothing.\<close>

definition demo_world1 :: world where
  "demo_world1 =
     \<lparr>heap = [[''from_date'' \<mapsto> PDatetime 50, ''offset'' \<mapsto> PInt 1],
              [''from_date'' \<mapsto> PDatetime 50, ''offset'' \<mapsto> PInt 1]],
      redis = (\<lambda>q. []), nfetch = 1, nopen = 0\<rparr>"

definition empty_path :: archive_args where
  "empty_path = \<lparr>archive_path = Some [], fetch_from_archive = False, archived_after = PNone\<rparr>"

definition no_such_path :: archive_args where
  "no_such_path = \<lparr>archive_path = Some ''/proc/nope'', fetch_from_archive = False,
                    archived_after = PNone\<rparr>"

definition replay :: archive_args where
  "replay = \<lparr>archive_path = Some ''/tmp/archive'', fetch_from_archive = True,
              archived_after = PInt 10\<rparr>"

text \<open>The job \<open>flaky_job1\<close> and its world once a resumed run has prepared its arguments.\<close>

definition flaky_job2 :: PercevalJob where
  "flaky_job2 =
     (demo_job ''flaky'' flaky)
       \<lparr>result := JobResult_init ''j1'' ''t1'' ''flaky'' ''commit''
                     (PStr ''b2'') (PInt 250) 2 (PInt 2) 1\<rparr>"

definition flaky_world2 :: world where
  "flaky_world2 =
     \<lparr>heap = [[''from_date'' \<mapsto> PDatetime 50, ''offset'' \<mapsto> PInt 1],
              [''from_date'' \<mapsto> PDatetime 50, ''offset'' \<mapsto> PInt 1],
              [''from_date'' \<mapsto> PDatetime 250, ''offset'' \<mapsto> PInt 2]],
      redis = (\<lambda>q. [])(''items'' := [Pickled (tagged item_a), Pickled (tagged item_b)]),
      nfetch = 1, nopen = 0\<rparr>"

text \<open>A job of \<open>mbox\<close> that has forwarded one item, dated at the epoch, at offset 0.\<close>

definition epoch_job :: PercevalJob where
  "epoch_job =
     (demo_job ''mbox'' mbox)
       \<lparr>result := JobResult_init ''j1'' ''t1'' ''mbox'' ''commit''
                     (PStr ''m1'') (PInt 0) 1 (PInt 0) 0\<rparr>"

text \<open>The world once the first run has copied the arguments, before it fetches.\<close>

definition demo_world0 :: world where
  "demo_world0 =
     \<lparr>heap = [[''from_date'' \<mapsto> PDatetime 50, ''offset'' \<mapsto> PInt 1],
              [''from_date'' \<mapsto> PDatetime 50, ''offset'' \<mapsto> PInt 1]],
      redis = (\<lambda>q. []), nfetch = 0, nopen = 0\<rparr>"

text \<open>The result of the whole job of \<open>flaky\<close>: two items, a failure, a resumed run, a third item.\<close>

definition flaky_result :: JobResult where
  "flaky_result =
     JobResult_init ''j1'' ''t1'' ''flaky'' ''commit'' (PStr ''c3'') (PInt 300) 3 (PInt 2) 1"

text \<open>The identifiers of the result are those of the job that owns it.\<close>

definition ids_agree :: "PercevalJob \<Rightarrow> bool" where
  "ids_agree job \<longleftrightarrow>
     JobResult.job_id (result job) = job_id job \<and>
     JobResult.task_id (result job) = task_id job \<and>
     JobResult.backend (result job) = backend job \<and>
     JobResult.category (result job) = category job"

section \<open>Facts about the stages of a run\<close>

declare run_loop.simps [simp del]

lemmas demo_defs =
  demo_env_def demo_world_def demo_job_def flaky_def strict_def plain_def mbox_def
  item_a_def item_b_def item_c_def item_epoch_def item_before_epoch_def
  flaky_job1_def flaky_world1_def no_such_path_def demo_world0_def demo_world1_def flaky_job2_def flaky_world2_def
  epoch_job_def flaky_result_def tagged_def empty_path_def replay_def

lemmas op_defs =
  run_def run_prepare_def dict_copy_def dict_set_def execute_def execute_body_def
  metadata_def store_item_def advance_def rpush_def JobResult_init_def
  initialize_archive_manager_def archive_setup_def PercevalJob_init_def
  execute_perceval_job_def

lemma advance_frame:
  "advance r item = (e, r') \<Longrightarrow>
     nitems r' = nitems r + 1 \<and>
     JobResult.job_id r' = JobResult.job_id r \<and> JobResult.task_id r' = JobResult.task_id r \<and>
     JobResult.backend r' = JobResult.backend r \<and> JobResult.category r' = JobResult.category r \<and>
     nresumed r' = nresumed r"
  by (auto simp: advance_def Let_def split: option.splits sum.splits if_splits)

lemma store_item_frame:
  "store_item job w item = (e, job', w') \<Longrightarrow>
     advance (result job) item = (e, result job') \<and>
     redis w' = (redis w)(qitems job := redis w (qitems job) @ [Pickled item]) \<and>
     heap w' = heap w \<and> nfetch w' = nfetch w \<and>
     bklass job' = bklass job \<and> job_id job' = job_id job \<and> task_id job' = task_id job \<and>
     backend job' = backend job \<and> qitems job' = qitems job \<and> category job' = category job \<and>
     archive_manager job' = archive_manager job"
  by (auto simp: store_item_def rpush_def Let_def split: prod.splits)

lemma consume_frame:
  "consume job w items fin = (e, job', w') \<Longrightarrow>
     heap w' = heap w \<and> nfetch w' = nfetch w \<and>
     bklass job' = bklass job \<and> job_id job' = job_id job \<and> task_id job' = task_id job \<and>
     backend job' = backend job \<and> qitems job' = qitems job \<and> category job' = category job \<and>
     archive_manager job' = archive_manager job \<and>
     nresumed (result job') = nresumed (result job) \<and>
     JobResult.job_id (result job') = JobResult.job_id (result job) \<and>
     JobResult.task_id (result job') = JobResult.task_id (result job) \<and>
     JobResult.backend (result job') = JobResult.backend (result job) \<and>
     JobResult.category (result job') = JobResult.category (result job)"
proof (induction items arbitrary: job w)
  case Nil
  then show ?case by simp
next
  case (Cons item items)
  obtain e1 job1 w1 where s: "store_item job w item = (e1, job1, w1)"
    by (cases "store_item job w item") auto
  note f = store_item_frame [OF s]
  note g = advance_frame [of "result job" item e1 "result job1"]
  show ?case
  proof (cases e1)
    case None
    with Cons.prems s have "consume job1 w1 items fin = (e, job', w')" by simp
    from Cons.IH [OF this] f g show ?thesis by simp
  next
    case (Some x)
    with Cons.prems s have "job' = job1" "w' = w1" by auto
    with f g show ?thesis by simp
  qed
qed

text \<open>
  The loop pushes a prefix of the stream, the whole of it unless an item made
  the body raise, and counts each push.
\<close>

lemma consume_count:
  "consume job w items fin = (e, job', w') \<Longrightarrow>
     \<exists>k \<le> length items.
        nitems (result job') = nitems (result job) + int k \<and>
        redis w' = (redis w)(qitems job := redis w (qitems job) @ map Pickled (take k items)) \<and>
        (e = None \<longrightarrow> k = length items)"
proof (induction items arbitrary: job w)
  case Nil
  then show ?case by simp
next
  case (Cons item items)
  obtain e1 job1 w1 where s: "store_item job w item = (e1, job1, w1)"
    by (cases "store_item job w item") auto
  note f = store_item_frame [OF s]
  note g = advance_frame [of "result job" item e1 "result job1"]
  show ?case
  proof (cases e1)
    case None
    with Cons.prems s have "consume job1 w1 items fin = (e, job', w')" by simp
    from Cons.IH [OF this] obtain k where k: "k \<le> length items"
      "nitems (result job') = nitems (result job1) + int k"
      "redis w' = (redis w1)(qitems job1 := redis w1 (qitems job1) @ map Pickled (take k items))"
      "e = None \<longrightarrow> k = length items" by blast
    show ?thesis
      apply (rule exI [of _ "Suc k"])
      using k f g by auto
  next
    case (Some x)
    with Cons.prems s have "e = Some x" "job' = job1" "w' = w1" by auto
    then show ?thesis
      apply -
      apply (rule exI [of _ "Suc 0"])
      using f g by auto
  qed
qed

text \<open>The end of the stream matters only once every item went through.\<close>

lemma consume_split:
  "consume job w items fin =
     (case consume job w items None of
        (None, job', w') \<Rightarrow> (fin, job', w')
      | (Some e, job', w') \<Rightarrow> (Some e, job', w'))"
  by (induction items arbitrary: job w) (auto split: prod.splits option.splits)

lemma execute_facts:
  "execute env job w args aa = ((items, fin), w') \<Longrightarrow>
     heap w' = heap w \<and> redis w' = redis w \<and> nfetch w' = nfetch w + 1 \<and>
     (\<forall>i \<in> set items. i ''arthur_version'' = Some (PStr (version env)) \<and>
                        i ''job_id'' = Some (PStr (job_id job)))"
  by (auto simp: execute_def execute_body_def metadata_def Let_def
           split: option.splits if_splits prod.splits)

lemma unixtime_to_datetime_Inr:
  "unixtime_to_datetime v = Inr d \<Longrightarrow> \<exists>t. v = PInt t \<and> d = PDatetime t"
  by (cases v) (auto split: if_splits)

lemma unixtime_to_datetime_Inl:
  "unixtime_to_datetime v = Inl e \<Longrightarrow> e = InvalidDateError ''invalid date''"
  by (cases v) (auto split: if_splits)

lemma run_prepare_world:
  "run_prepare env job w ba aa resume = (p, job1, w1) \<Longrightarrow>
     (\<exists>d. heap w1 = heap w @ [d]) \<and> redis w1 = redis w \<and> nfetch w1 = nfetch w \<and>
     (\<forall>args. p = Inr args \<longrightarrow> args = length (heap w))"
  by (auto simp: run_prepare_def dict_copy_def dict_set_def archive_setup_def
             initialize_archive_manager_def
           split: option.splits sum.splits if_splits prod.splits)

lemma run_prepare_job:
  "run_prepare env job w ba aa resume = (p, job1, w1) \<Longrightarrow>
     bklass job1 = bklass job \<and> job_id job1 = job_id job \<and> task_id job1 = task_id job \<and>
     backend job1 = backend job \<and> qitems job1 = qitems job \<and> category job1 = category job"
  by (auto simp: run_prepare_def dict_copy_def archive_setup_def initialize_archive_manager_def
           split: option.splits sum.splits if_splits prod.splits)

text \<open>Whether the archive manager can be set up does not depend on the heap.\<close>

lemma archive_setup_heap:
  "fst (archive_setup env job (w\<lparr>heap := h\<rparr>) aa) = fst (archive_setup env job w aa)"
  by (auto simp: archive_setup_def initialize_archive_manager_def split: option.splits)

lemma run_prepare_nitems:
  "run_prepare env job w ba aa resume = (p, job1, w1) \<Longrightarrow>
     nitems (result job1) =
       (case fst (archive_setup env job w aa) of
          Inl e \<Rightarrow> nitems (result job)
        | Inr j \<Rightarrow> if resume then nitems (result job) else 0)"
  by (auto simp: run_prepare_def dict_copy_def archive_setup_def initialize_archive_manager_def
             JobResult_init_def
           split: option.splits sum.splits if_splits prod.splits)

lemma run_prepare_fresh:
  assumes "run_prepare env job w ba aa False = (Inr args, job1, w1)"
  shows "result job1 = JobResult_init (job_id job) (task_id job) (backend job) (category job)
                         PNone PNone 0 PNone 0"
    and "heap w1 ! args = heap w ! ba"
  using assms
  by (auto simp: run_prepare_def dict_copy_def archive_setup_def initialize_archive_manager_def
           split: option.splits sum.splits if_splits prod.splits)

lemma run_prepare_resume:
  assumes "run_prepare env job w ba aa True = (Inr args, job1, w1)"
  shows "result job1 = (result job)\<lparr>nresumed := nresumed (result job) + 1\<rparr>"
    and "truthy (max_date (result job)) \<Longrightarrow>
           \<exists>t. max_date (result job) = PInt t \<and>
               (heap w1 ! args) ''from_date'' = Some (PDatetime t)"
    and "\<not> truthy (max_date (result job)) \<Longrightarrow>
           (heap w1 ! args) ''from_date'' = (heap w ! ba) ''from_date''"
    and "truthy (offset (result job)) \<Longrightarrow>
           (heap w1 ! args) ''offset'' = Some (offset (result job))"
    and "\<not> truthy (offset (result job)) \<Longrightarrow>
           (heap w1 ! args) ''offset'' = (heap w ! ba) ''offset''"
    and "k \<noteq> ''from_date'' \<Longrightarrow> k \<noteq> ''offset'' \<Longrightarrow> (heap w1 ! args) k = (heap w ! ba) k"
  using assms
  by (auto simp: run_prepare_def dict_copy_def dict_set_def archive_setup_def
             initialize_archive_manager_def
           split: option.splits sum.splits if_splits prod.splits
           dest!: unixtime_to_datetime_Inr)

text \<open>A run either stops in its preparation or goes through the loop.\<close>

lemma run_cases:
  assumes "run env job w ba aa resume = (out, job', w')"
  obtains (early) e job1 w1 where "run_prepare env job w ba aa resume = (Inl e, job1, w1)"
      "out = Some e" "job' = job1" "w' = w1"
  | (loop) args job1 w1 items fin w2 where "run_prepare env job w ba aa resume = (Inr args, job1, w1)"
      "execute env job1 w1 args aa = ((items, fin), w2)"
      "consume job1 w2 items fin = (out, job', w')"
  using assms by (auto simp: run_def split: prod.splits sum.splits)

lemma run_frame:
  assumes "run env job w ba aa resume = (out, job', w')"
  shows "bklass job' = bklass job \<and> job_id job' = job_id job \<and> task_id job' = task_id job \<and>
     backend job' = backend job \<and> qitems job' = qitems job \<and> category job' = category job \<and>
     (\<exists>d. heap w' = heap w @ [d]) \<and> (\<forall>q. q \<noteq> qitems job \<longrightarrow> redis w' q = redis w q)"
  using assms
proof (cases rule: run_cases)
  case (early e job1 w1)
  then show ?thesis
    using run_prepare_world [of env job w ba aa resume "Inl e" job1 w1]
      run_prepare_job [of env job w ba aa resume "Inl e" job1 w1] by simp
next
  case (loop args job1 w1 items fin w2)
  then show ?thesis
    using run_prepare_world [OF loop(1)] run_prepare_job [OF loop(1)]
      execute_facts [OF loop(2)] consume_frame [OF loop(3)] consume_count [OF loop(3)]
    by auto
qed

lemma flaky_first_run:
  "run demo_env (demo_job ''flaky'' flaky) demo_world 0 None False =
     (Some (OtherError ''connection reset''), flaky_job1, flaky_world1)"
  by (simp add: demo_defs op_defs)

lemma strict_first_run:
  "run demo_env (demo_job ''strict'' strict) demo_world 0 None False =
     (Some (AttributeError ''uri''), demo_job ''strict'' strict, demo_world1)"
  by (simp add: demo_defs op_defs)

lemma run_unfold:
  "run_prepare env job w ba aa resume = (Inr args, job1, w1) \<Longrightarrow>
   run env job w ba aa resume =
     (case execute env job1 w1 args aa of ((items, fin), w2) \<Rightarrow> consume job1 w2 items fin)"
  by (simp add: run_def)

lemma run_nresumed:
  assumes "run_prepare env job w ba aa resume = (p, job1, w1)"
  shows "nresumed (result (fst (snd (run env job w ba aa resume)))) = nresumed (result job1)"
proof -
  obtain out job' w' where r: "run env job w ba aa resume = (out, job', w')"
    by (cases "run env job w ba aa resume") auto
  from r show ?thesis
  proof (cases rule: run_cases)
    case (early e j1 ww1)
    with assms r show ?thesis by simp
  next
    case (loop args j1 ww1 items fin w2)
    with assms r consume_frame [OF loop(3)] show ?thesis by simp
  qed
qed

lemma flaky_resume_prepare:
  "run_prepare demo_env flaky_job1 flaky_world1 0 None True = (Inr 2, flaky_job2, flaky_world2)"
  by (simp add: demo_defs op_defs)

lemma advance_uuid: "advance r item = (None, r') \<Longrightarrow> item ''uuid'' = Some (last_uuid r')"
  by (auto simp: advance_def Let_def split: option.splits sum.splits if_splits)

lemma store_item_result:
  "store_item job w item = (e, job', w') \<Longrightarrow> result job' = snd (advance (result job) item)"
  by (auto simp: store_item_def Let_def split: prod.splits)

lemma consume_last_uuid:
  "consume job w items None = (None, job', w') \<Longrightarrow> items \<noteq> [] \<Longrightarrow>
     last items ''uuid'' = Some (last_uuid (result job'))"
proof (induction items arbitrary: job w)
  case Nil
  then show ?case by simp
next
  case (Cons item items)
  obtain e1 job1 w1 where s: "store_item job w item = (e1, job1, w1)"
    by (cases "store_item job w item") auto
  with Cons.prems(1) have e1: "e1 = None" and c: "consume job1 w1 items None = (None, job', w')"
    by (auto split: option.splits)
  show ?case
  proof (cases "items = []")
    case True
    with c have "job' = job1" by simp
    with store_item_frame [OF s] e1 advance_uuid [of "result job" item "result job1"] True
    show ?thesis by simp
  next
    case False
    with Cons.IH [OF c] show ?thesis by simp
  qed
qed

lemma consume_fold:
  "consume job w items None = (None, job', w') \<Longrightarrow>
     result job' = foldl (\<lambda>r i. snd (advance r i)) (result job) items"
proof (induction items arbitrary: job w)
  case Nil
  then show ?case by simp
next
  case (Cons item items)
  obtain e1 job1 w1 where s: "store_item job w item = (e1, job1, w1)"
    by (cases "store_item job w item") auto
  with Cons.prems(1) have c: "consume job1 w1 items None = (None, job', w')"
    by (auto split: option.splits)
  from Cons.IH [OF c] store_item_result [OF s] show ?case by simp
qed

lemma flaky_fresh_prepare:
  "run_prepare demo_env (demo_job ''flaky'' flaky) demo_world 0 None False =
     (Inr 1, demo_job ''flaky'' flaky, demo_world0)"
  by (simp add: demo_defs op_defs)

lemma flaky_first_fetch:
  "execute demo_env (demo_job ''flaky'' flaky) demo_world0 1 None =
     (([tagged item_a, tagged item_b], Some (OtherError ''connection reset'')), demo_world1)"
  by (simp add: demo_defs op_defs)

lemma flaky_first_loop:
  "consume (demo_job ''flaky'' flaky) demo_world1 [tagged item_a, tagged item_b] None =
     (None, flaky_job1, flaky_world1)"
  by (simp add: demo_defs op_defs)

text \<open>One turn of the loop either ends it in the world the run left, or goes on.\<close>

lemma run_loop_turn:
  assumes "run env job w ba aa resume = (out, job1, w1)"
  obtains (stop) "snd (run_loop env job w ba aa sa resume failures) = w1"
      "\<And>r. fst (run_loop env job w ba aa sa resume failures) = Inr r \<Longrightarrow>
             out = None \<and> r = result job1"
  | (again) e s where "out = Some e" "\<not> is_AttributeError e" "has_resuming (bklass job1)"
      "sa = Some s" "\<not> max_retries s \<le> failures + 1"
      "run_loop env job w ba aa sa resume failures =
         run_loop env job1 w1 ba aa sa True (failures + 1)"
proof (cases "\<exists>e s. out = Some e \<and> \<not> is_AttributeError e \<and> has_resuming (bklass job1) \<and>
                     sa = Some s \<and> \<not> max_retries s \<le> failures + 1")
  case True
  then obtain e s where c: "out = Some e" "\<not> is_AttributeError e" "has_resuming (bklass job1)"
      "sa = Some s" "\<not> max_retries s \<le> failures + 1" by blast
  have "run_loop env job w ba aa sa resume failures =
         run_loop env job1 w1 ba aa sa True (failures + 1)"
    using assms c by (subst run_loop.simps) simp
  with c show ?thesis by (rule again)
next
  case False
  have a: "snd (run_loop env job w ba aa sa resume failures) = w1"
    using assms False by (subst run_loop.simps) (auto split: option.splits)
  have b: "\<And>r. fst (run_loop env job w ba aa sa resume failures) = Inr r \<Longrightarrow>
             out = None \<and> r = result job1"
    using assms False by (subst (asm) run_loop.simps) (auto split: option.splits if_splits)
  from a b show ?thesis by (rule stop)
qed

lemma run_loop_heap:
  "\<exists>ys. heap (snd (run_loop env job w ba aa sa resume failures)) = heap w @ ys"
proof (induction env job w ba aa sa resume failures rule: run_loop.induct)
  case (1 env job w ba aa sa resume failures)
  obtain out job1 w1 where r: "run env job w ba aa resume = (out, job1, w1)"
    by (cases "run env job w ba aa resume") auto
  from run_frame [OF r] obtain d where d: "heap w1 = heap w @ [d]" by blast
  from r show ?case
  proof (cases rule: run_loop_turn [where sa = sa and failures = failures])
    case stop
    with d show ?thesis by simp
  next
    case (again e s)
    have "\<exists>ys. heap (snd (run_loop env job1 w1 ba aa sa True (failures + 1))) = heap w1 @ ys"
      using "1.IH" [OF r [symmetric] again(1) refl again(2) _ again(4,5)] again(3) by simp
    with again(6) d show ?thesis by auto
  qed
qed

lemma run_nitems:
  assumes "run env job w ba aa resume = (out, job', w')"
  shows "nitems (result job') =
     (case fst (archive_setup env job w aa) of
        Inl e \<Rightarrow> nitems (result job)
      | Inr j \<Rightarrow> if resume then nitems (result job) else 0) +
     (int (length (redis w' (qitems job))) - int (length (redis w (qitems job))))"
  using assms
proof (cases rule: run_cases)
  case (early e job1 w1)
  then show ?thesis
    using run_prepare_world [of env job w ba aa resume "Inl e" job1 w1]
      run_prepare_nitems [of env job w ba aa resume "Inl e" job1 w1] by simp
next
  case (loop args job1 w1 items fin w2)
  from consume_count [OF loop(3)] obtain k where
    k: "nitems (result job') = nitems (result job1) + int k"
       "redis w' = (redis w2)(qitems job1 := redis w2 (qitems job1) @ map Pickled (take k items))"
       "k \<le> length items"
    by blast
  have "redis w2 = redis w" "qitems job1 = qitems job"
    using run_prepare_world [OF loop(1)] run_prepare_job [OF loop(1)] execute_facts [OF loop(2)]
    by simp_all
  with k have "int (length (redis w' (qitems job))) - int (length (redis w (qitems job))) = int k"
    by simp
  with k(1) run_prepare_nitems [OF loop(1)] show ?thesis by simp
qed

lemma run_loop_nitems:
  "run_loop env job w ba aa sa resume failures = (Inr r, w') \<Longrightarrow>
   nitems (result job) = int (length (redis w (qitems job))) - n0 \<Longrightarrow>
   (\<not> resume \<Longrightarrow> nitems (result job) = 0) \<Longrightarrow>
   nitems r = int (length (redis w' (qitems job))) - n0"
proof (induction env job w ba aa sa resume failures rule: run_loop.induct)
  case (1 env job w ba aa sa resume failures)
  obtain out job1 w1 where r: "run env job w ba aa resume = (out, job1, w1)"
    by (cases "run env job w ba aa resume") auto
  have q: "qitems job1 = qitems job" using run_frame [OF r] by simp
  have n: "nitems (result job1) = int (length (redis w1 (qitems job))) - n0"
    using run_nitems [OF r] "1.prems"(2,3) by (auto split: if_splits sum.splits)
  from r show ?case
  proof (cases rule: run_loop_turn [where sa = sa and failures = failures])
    case stop
    with "1.prems"(1) n show ?thesis by simp
  next
    case (again e s)
    have "nitems r = int (length (redis w' (qitems job1))) - n0"
    proof (rule "1.IH" [OF r [symmetric] again(1) refl again(2) _ again(4,5)])
      show "\<not> \<not> has_resuming (bklass job1)" using again(3) by simp
      show "run_loop env job1 w1 ba aa sa True (failures + 1) = (Inr r, w')"
        using again(6) "1.prems"(1) by simp
      show "nitems (result job1) = int (length (redis w1 (qitems job1))) - n0"
        using n q by simp
    qed simp
    with q show ?thesis by simp
  qed
qed

lemma execute_perceval_job_nitems:
  assumes "execute_perceval_job env w rq_job_id b ba q t c aa sa = (Inr r, w')"
  shows "nitems r = int (length (redis w' q)) - int (length (redis w q))"
proof -
  from assms obtain job where j: "PercevalJob_init env rq_job_id t b c q = Inr job"
    and l: "run_loop env job w ba aa sa False 0 = (Inr r, w')"
    by (auto simp: execute_perceval_job_def split: sum.splits if_splits)
  from j have "qitems job = q" "nitems (result job) = 0"
    by (auto simp: PercevalJob_init_def JobResult_init_def split: option.splits)
  with run_loop_nitems [OF l, of "int (length (redis w q))"] show ?thesis by simp
qed

lemma run_heap: "\<exists>d. heap (snd (snd (run env job w ba aa resume))) = heap w @ [d]"
proof -
  obtain out job' w' where r: "run env job w ba aa resume = (out, job', w')"
    by (cases "run env job w ba aa resume") auto
  from run_frame [OF r] r show ?thesis by simp
qed


lemma flaky_whole_job_heap:
  "heap (snd (execute_perceval_job demo_env demo_world ''j1'' ''flaky'' 0 ''items'' ''t1''
            ''commit'' None (Some \<lparr>max_retries = 3\<rparr>))) =
     [[''from_date'' \<mapsto> PDatetime 50, ''offset'' \<mapsto> PInt 1],
      [''from_date'' \<mapsto> PDatetime 50, ''offset'' \<mapsto> PInt 1],
      [''from_date'' \<mapsto> PDatetime 250, ''offset'' \<mapsto> PInt 2]]"
  by (simp add: run_loop.simps demo_defs op_defs)

lemma PercevalJob_init_ids_agree:
  "PercevalJob_init env j t b c q = Inr job \<Longrightarrow> ids_agree job \<and> archive_manager job = None"
  by (auto simp: PercevalJob_init_def JobResult_init_def ids_agree_def split: option.splits)

lemma run_prepare_ids_agree:
  "run_prepare env job w ba aa resume = (p, job1, w1) \<Longrightarrow> ids_agree job \<Longrightarrow> ids_agree job1"
  by (auto simp: run_prepare_def dict_copy_def archive_setup_def initialize_archive_manager_def
        JobResult_init_def ids_agree_def split: option.splits sum.splits if_splits prod.splits)

lemma run_ids_agree:
  assumes "run env job w ba aa resume = (out, job', w')" and "ids_agree job"
  shows "ids_agree job'"
  using assms(1)
proof (cases rule: run_cases)
  case (early e job1 w1)
  with run_prepare_ids_agree [OF early(1) assms(2)] show ?thesis by simp
next
  case (loop args job1 w1 items fin w2)
  with run_prepare_ids_agree [OF loop(1) assms(2)] consume_frame [OF loop(3)]
  show ?thesis by (simp add: ids_agree_def)
qed

lemma run_prepare_fresh_ok:
  assumes "fst (archive_setup env job w aa) = Inr job0"
  shows "\<exists>job1 w1. run_prepare env job w ba aa False = (Inr (length (heap w)), job1, w1)"
  using assms
  by (auto simp: run_prepare_def dict_copy_def archive_setup_def initialize_archive_manager_def
           split: option.splits sum.splits if_splits prod.splits)

lemma run_prepare_empty_path:
  assumes "aa = Some a" and "archive_path a = Some []"
  shows "run_prepare env job w ba aa resume =
           (Inl (ValueError ''Archive manager path cannot be empty''), job,
            w\<lparr>heap := heap w @ [heap w ! ba]\<rparr>)"
  using assms
  by (simp add: run_prepare_def dict_copy_def archive_setup_def initialize_archive_manager_def)

lemma run_prepare_open_fails:
  assumes "aa = Some a" and "archive_path a = Some p" and "p \<noteq> []"
      and "ArchiveManager env (nopen w) p = Some e"
  shows "run_prepare env job w ba aa resume =
           (Inl e, job, w\<lparr>heap := heap w @ [heap w ! ba], nopen := nopen w + 1\<rparr>)"
  using assms
  by (simp add: run_prepare_def dict_copy_def archive_setup_def initialize_archive_manager_def)

lemma run_prepare_archive_manager:
  "run_prepare env job w ba aa resume = (p, job1, w1) \<Longrightarrow>
     (case aa of
        None \<Rightarrow> archive_manager job1 = archive_manager job
      | Some a \<Rightarrow>
          (case archive_path a of
             None \<Rightarrow> archive_manager job1 = archive_manager job
           | Some path \<Rightarrow>
               if path = []
               then job1 = job \<and> p = Inl (ValueError ''Archive manager path cannot be empty'')
               else (case ArchiveManager env (nopen w) path of
                       None \<Rightarrow> archive_manager job1 = Some path
                     | Some e \<Rightarrow> job1 = job \<and> p = Inl e)))"
  by (auto simp: run_prepare_def dict_copy_def archive_setup_def initialize_archive_manager_def
           split: option.splits sum.splits if_splits prod.splits)

lemma advance_max_date_mono:
  assumes "advance r item = (e, r')" and "max_date r = PInt a" and "a \<noteq> 0"
  shows "\<exists>b. max_date r' = PInt b \<and> a \<le> b"
proof (cases "item ''updated_on''")
  case None
  with assms show ?thesis
    by (auto simp: advance_def Let_def split: option.splits)
next
  case (Some t)
  with assms show ?thesis
    by (cases t) (auto simp: advance_def Let_def split: option.splits if_splits)
qed

lemma flaky_init:
  "PercevalJob_init demo_env ''j1'' ''t1'' ''flaky'' ''commit'' ''items'' =
     Inr (demo_job ''flaky'' flaky)"
  by (simp add: demo_defs op_defs)

lemma flaky_whole_job:
  "fst (execute_perceval_job demo_env demo_world ''j1'' ''flaky'' 0 ''items'' ''t1''
            ''commit'' None (Some \<lparr>max_retries = 3\<rparr>)) = Inr flaky_result"
  "redis (snd (execute_perceval_job demo_env demo_world ''j1'' ''flaky'' 0 ''items'' ''t1''
            ''commit'' None (Some \<lparr>max_retries = 3\<rparr>))) ''items'' =
     [Pickled (tagged item_a), Pickled (tagged item_b), Pickled (tagged item_c)]"
  by (simp_all add: run_loop.simps demo_defs op_defs)

text \<open>
  One turn of the \<^verbatim>\<open>while run_job\<close> loop in which \<^verbatim>\<open>run\<close> raised \<open>e\<close>: what
  the handlers of lines 280 to 294 do, by the class of \<open>e\<close>, the capability of
  the backend and the scheduler arguments.
\<close>

lemma run_loop_policy:
  assumes "run env job w backend_args aa resume = (Some e, job1, w1)"
  shows "(is_AttributeError e \<longrightarrow>
            run_loop env job w backend_args aa sa resume failures = (Inl e, w1)) \<and>
         (\<not> is_AttributeError e \<and>
            (\<not> has_resuming (bklass job) \<or>
             (\<exists>s. sa = Some s \<and> max_retries s \<le> failures + 1)) \<longrightarrow>
            run_loop env job w backend_args aa sa resume failures = (Inl e, w1)) \<and>
         (\<not> is_AttributeError e \<and> has_resuming (bklass job) \<and>
            (\<exists>s. sa = Some s \<and> failures + 1 < max_retries s) \<longrightarrow>
            run_loop env job w backend_args aa sa resume failures =
              run_loop env job1 w1 backend_args aa sa True (failures + 1)) \<and>
         (\<not> is_AttributeError e \<and> has_resuming (bklass job) \<and> sa = None \<longrightarrow>
            run_loop env job w backend_args aa sa resume failures =
              (Inl (TypeError ''NoneType object is not subscriptable''), w1))"
proof -
  have b: "bklass job1 = bklass job"
    using run_frame [OF assms] by simp
  show ?thesis
    using assms b by (subst (1 2 3 4) run_loop.simps) (auto split: option.splits)
qed

section \<open>The claims\<close>

subsection \<open>C1: the retry policy of \<^verbatim>\<open>execute_perceval_job\<close>\<close>

text \<open>
  C1 does not hold of the code when \<^verbatim>\<open>sched_args\<close> is left at its default, None.
  The first run of \<open>flaky\<close> raises an exception that is no AttributeError, and the
  backend can resume; the handler then evaluates \<^verbatim>\<open>sched_args['max_retries']\<close>
  at line 287, which raises TypeError. So \<^verbatim>\<open>execute_perceval_job\<close> ends with
  this TypeError and not with the exception \<^verbatim>\<open>run\<close> raised, and \<^verbatim>\<open>run\<close> is not
  called again: the world is the one the first run left, after one fetch. (With
  scheduler arguments given, each turn of the loop does what the claim says:
  \<open>run_loop_policy\<close>.)
\<close>

theorem C1_default_sched_args:
  "run demo_env (demo_job ''flaky'' flaky) demo_world 0 None False =
     (Some (OtherError ''connection reset''), flaky_job1, flaky_world1) \<and>
   has_resuming (bklass (demo_job ''flaky'' flaky)) \<and>
   execute_perceval_job demo_env demo_world ''j1'' ''flaky'' 0 ''items'' ''t1'' ''commit''
       None None =
     (Inl (TypeError ''NoneType object is not subscriptable''), flaky_world1) \<and>
   nfetch flaky_world1 = 1"
  by (simp add: run_loop.simps demo_defs op_defs)

subsection \<open>C2: what a resumed run changes before it fetches\<close>

text \<open>
  C2, as stated, fails on the code. A call of \<^verbatim>\<open>run\<close> with \<^verbatim>\<open>resume=True\<close> and an
  empty archive path raises ValueError at line 138, before line 178: \<^verbatim>\<open>nresumed\<close>
  keeps its value. And the tests of lines 174 and 176 are truth tests: a stored
  \<^verbatim>\<open>max_date\<close> or \<^verbatim>\<open>offset\<close> of 0 is set, yet the caller's \<^verbatim>\<open>from_date\<close> and
  \<^verbatim>\<open>offset\<close> reach the backend as they were.
\<close>

theorem C2_counterexample:
  "fst (run demo_env flaky_job1 flaky_world1 0 (Some empty_path) True) =
     Some (ValueError ''Archive manager path cannot be empty'') \<and>
   nresumed (result (fst (snd (run demo_env flaky_job1 flaky_world1 0 (Some empty_path) True)))) =
     nresumed (result flaky_job1) \<and>
   max_date (result epoch_job) = PInt 0 \<and> offset (result epoch_job) = PInt 0 \<and>
   fst (run_prepare demo_env epoch_job demo_world 0 None True) = Inr 1 \<and>
   heap (snd (snd (run_prepare demo_env epoch_job demo_world 0 None True))) ! 1 =
     [''from_date'' \<mapsto> PDatetime 50, ''offset'' \<mapsto> PInt 1]"
  by (simp add: demo_defs op_defs)


text \<open>
  C2, amended. When the preparation of a resumed run raises nothing (no empty
  archive path, an archive manager that is built, a stored \<^verbatim>\<open>max_date\<close> that
  converts), the dictionary handed to
  the backend is a copy of the caller's in which \<^verbatim>\<open>from_date\<close> is overwritten with
  the datetime of the stored \<^verbatim>\<open>max_date\<close> when that is a number other than 0 and kept
  when it is None, \<^verbatim>\<open>offset\<close> is overwritten with the stored \<^verbatim>\<open>offset\<close> when that is
  true in Python's sense and kept when it is None, and every other key is the
  caller's; \<^verbatim>\<open>nresumed\<close> is one more than before, at the fetch and when the run
  ends.
\<close>

theorem C2_resume_injects:
  assumes "run_prepare env job w backend_args aa True = (Inr args, job1, w1)"
  shows "nresumed (result job1) = nresumed (result job) + 1 \<and>
     (\<forall>t. max_date (result job) = PInt t \<and> t \<noteq> 0 \<longrightarrow>
          (heap w1 ! args) ''from_date'' = Some (PDatetime t)) \<and>
     (max_date (result job) = PNone \<longrightarrow>
          (heap w1 ! args) ''from_date'' = (heap w ! backend_args) ''from_date'') \<and>
     (truthy (offset (result job)) \<longrightarrow>
          (heap w1 ! args) ''offset'' = Some (offset (result job))) \<and>
     (offset (result job) = PNone \<longrightarrow>
          (heap w1 ! args) ''offset'' = (heap w ! backend_args) ''offset'') \<and>
     (\<forall>k. k \<noteq> ''from_date'' \<and> k \<noteq> ''offset'' \<longrightarrow>
          (heap w1 ! args) k = (heap w ! backend_args) k) \<and>
     run env job w backend_args aa True =
       (case execute env job1 w1 args aa of ((items, fin), w2) \<Rightarrow> consume job1 w2 items fin) \<and>
     nresumed (result (fst (snd (run env job w backend_args aa True)))) =
       nresumed (result job) + 1"
proof -
  note r = run_prepare_resume [OF assms]
  have 1: "nresumed (result job1) = nresumed (result job) + 1"
    using r(1) by simp
  have 2: "\<forall>t. max_date (result job) = PInt t \<and> t \<noteq> 0 \<longrightarrow>
          (heap w1 ! args) ''from_date'' = Some (PDatetime t)"
    using r(2) by auto
  have 3: "max_date (result job) = PNone \<longrightarrow>
          (heap w1 ! args) ''from_date'' = (heap w ! backend_args) ''from_date''"
    using r(3) by simp
  have 4: "truthy (offset (result job)) \<longrightarrow>
          (heap w1 ! args) ''offset'' = Some (offset (result job))"
    using r(4) by simp
  have 5: "offset (result job) = PNone \<longrightarrow>
          (heap w1 ! args) ''offset'' = (heap w ! backend_args) ''offset''"
    using r(5) by simp
  have 6: "\<forall>k. k \<noteq> ''from_date'' \<and> k \<noteq> ''offset'' \<longrightarrow>
          (heap w1 ! args) k = (heap w ! backend_args) k"
    using r(6) by simp
  have 7: "run env job w backend_args aa True =
       (case execute env job1 w1 args aa of ((items, fin), w2) \<Rightarrow> consume job1 w2 items fin)"
    by (rule run_unfold [OF assms])
  have 8: "nresumed (result (fst (snd (run env job w backend_args aa True)))) =
       nresumed (result job) + 1"
    using run_nresumed [OF assms] 1 by simp
  from 1 2 3 4 5 6 7 8 show ?thesis by blast
qed


theorem C2_resume_injects_witness:
  "run_prepare demo_env flaky_job1 flaky_world1 0 None True = (Inr 2, flaky_job2, flaky_world2) \<and>
   max_date (result flaky_job1) = PInt 250 \<and> offset (result flaky_job1) = PInt 2 \<and>
   (heap flaky_world1 ! 0) ''from_date'' = Some (PDatetime 50) \<and>
   (heap flaky_world1 ! 0) ''offset'' = Some (PInt 1) \<and>
   (heap flaky_world2 ! 2) ''from_date'' = Some (PDatetime 250) \<and>
   (heap flaky_world2 ! 2) ''offset'' = Some (PInt 2) \<and>
   nresumed (result flaky_job1) = 0 \<and>
   nresumed (result (fst (snd (run demo_env flaky_job1 flaky_world1 0 None True)))) = 1"
proof -
  note t = C2_resume_injects [OF flaky_resume_prepare]
  note t2 = t [THEN conjunct2]
  note t4 = t2 [THEN conjunct2, THEN conjunct2]
  note t8 = t4 [THEN conjunct2, THEN conjunct2, THEN conjunct2, THEN conjunct2]
  have m: "max_date (result flaky_job1) = PInt 250" "offset (result flaky_job1) = PInt 2"
    "nresumed (result flaky_job1) = 0"
    by (simp_all add: flaky_job1_def JobResult_init_def)
  have c: "(heap flaky_world1 ! 0) ''from_date'' = Some (PDatetime 50)"
    "(heap flaky_world1 ! 0) ''offset'' = Some (PInt 1)"
    by (simp_all add: flaky_world1_def)
  have d: "(heap flaky_world2 ! 2) ''from_date'' = Some (PDatetime 250)"
    using t2 [THEN conjunct1, rule_format, of 250] m(1) by simp
  have o: "(heap flaky_world2 ! 2) ''offset'' = Some (PInt 2)"
    using t4 [THEN conjunct1] m(2) by simp
  have n: "nresumed (result (fst (snd (run demo_env flaky_job1 flaky_world1 0 None True)))) = 1"
    using t8 m(3) by simp
  from flaky_resume_prepare m c d o n show ?thesis by simp
qed

subsection \<open>C3: an exception of the source keeps the progress made\<close>

text \<open>
  C3. When the preparation of a run went through, and the source yields
  \<open>items\<close> and then raises \<open>e\<close>, and each of these items went through the loop
  body, then \<^verbatim>\<open>run\<close> raises \<open>e\<close> itself, and the job and the world it leaves are
  those the loop reached after the last of \<open>items\<close>, with nothing undone: the
  result is the one obtained by applying the per-item update to every item in
  turn, \<^verbatim>\<open>nitems\<close> has grown by the number of items, the queue holds them all,
  and \<^verbatim>\<open>last_uuid\<close> is the identifier of the last one.
\<close>

theorem C3_source_failure_keeps_progress:
  assumes "run_prepare env job w backend_args aa resume = (Inr args, job1, w1)"
      and "execute env job1 w1 args aa = ((items, Some e), w2)"
      and "consume job1 w2 items None = (None, job2, w3)"
  shows "run env job w backend_args aa resume = (Some e, job2, w3) \<and>
         result job2 = foldl (\<lambda>r i. snd (advance r i)) (result job1) items \<and>
         nitems (result job2) = nitems (result job1) + int (length items) \<and>
         redis w3 (qitems job) = redis w (qitems job) @ map Pickled items \<and>
         (if items = [] then last_uuid (result job2) = last_uuid (result job1)
          else last items ''uuid'' = Some (last_uuid (result job2)))"
proof -
  have r: "run env job w backend_args aa resume = (Some e, job2, w3)"
    using assms by (simp add: run_def consume_split [of job1 w2 items "Some e"])
  have f: "result job2 = foldl (\<lambda>r i. snd (advance r i)) (result job1) items"
    by (rule consume_fold [OF assms(3)])
  from consume_count [OF assms(3)] have
    n: "nitems (result job2) = nitems (result job1) + int (length items)" and
    q: "redis w3 = (redis w2)(qitems job1 := redis w2 (qitems job1) @ map Pickled items)"
    by auto
  have q': "redis w3 (qitems job) = redis w (qitems job) @ map Pickled items"
    using q run_prepare_world [OF assms(1)] run_prepare_job [OF assms(1)]
      execute_facts [OF assms(2)] by simp
  have u: "if items = [] then last_uuid (result job2) = last_uuid (result job1)
          else last items ''uuid'' = Some (last_uuid (result job2))"
    using consume_last_uuid [OF assms(3)] assms(3) by auto
  from r f n q' u show ?thesis by blast
qed


theorem C3_source_failure_keeps_progress_witness:
  "run_prepare demo_env (demo_job ''flaky'' flaky) demo_world 0 None False =
     (Inr 1, demo_job ''flaky'' flaky, demo_world0) \<and>
   execute demo_env (demo_job ''flaky'' flaky) demo_world0 1 None =
     (([tagged item_a, tagged item_b], Some (OtherError ''connection reset'')), demo_world1) \<and>
   consume (demo_job ''flaky'' flaky) demo_world1 [tagged item_a, tagged item_b] None =
     (None, flaky_job1, flaky_world1) \<and>
   run demo_env (demo_job ''flaky'' flaky) demo_world 0 None False =
     (Some (OtherError ''connection reset''), flaky_job1, flaky_world1) \<and>
   nitems (result flaky_job1) = 2 \<and> last_uuid (result flaky_job1) = PStr ''b2'' \<and>
   max_date (result flaky_job1) = PInt 250 \<and> offset (result flaky_job1) = PInt 2"
proof -
  note t = C3_source_failure_keeps_progress
             [OF flaky_fresh_prepare flaky_first_fetch flaky_first_loop]
  have "run demo_env (demo_job ''flaky'' flaky) demo_world 0 None False =
     (Some (OtherError ''connection reset''), flaky_job1, flaky_world1)"
    using t by (rule conjunct1)
  moreover have "nitems (result flaky_job1) = 2" "last_uuid (result flaky_job1) = PStr ''b2''"
    "max_date (result flaky_job1) = PInt 250" "offset (result flaky_job1) = PInt 2"
    by (simp_all add: flaky_job1_def JobResult_init_def)
  ultimately show ?thesis
    using flaky_fresh_prepare flaky_first_fetch flaky_first_loop by simp
qed

subsection \<open>C4: \<^verbatim>\<open>max_date\<close> across the items of a job\<close>

text \<open>
  C4 does not hold of the code. Line 186 tests \<^verbatim>\<open>not self.result.max_date\<close>,
  which is true of None and also of 0. After an item dated at the epoch
  \<^verbatim>\<open>max_date\<close> is 0; an item dated five seconds before the epoch then replaces
  it by -5, although 0 was set and is not smaller than -5. The run of \<open>mbox\<close>,
  which delivers these two items, ends without an exception with \<^verbatim>\<open>max_date\<close> -5:
  a value smaller than one \<^verbatim>\<open>max_date\<close> held before, and not the maximum of the
  dates forwarded. (From a \<^verbatim>\<open>max_date\<close> other than 0 the update never decreases:
  \<open>advance_max_date_mono\<close>.)
\<close>

theorem C4_max_date_decreases:
  "max_date (result epoch_job) = PInt 0 \<and>
   advance (result epoch_job) item_before_epoch =
     (None, (result epoch_job)\<lparr>nitems := 2, last_uuid := PStr ''m2'', max_date := PInt (- 5)\<rparr>) \<and>
   fst (run demo_env (demo_job ''mbox'' mbox) demo_world 0 None False) = None \<and>
   nitems (result (fst (snd (run demo_env (demo_job ''mbox'' mbox) demo_world 0 None False)))) = 2 \<and>
   max_date (result (fst (snd (run demo_env (demo_job ''mbox'' mbox) demo_world 0 None False)))) =
     PInt (- 5)"
  by (simp add: demo_defs op_defs)

subsection \<open>C5: \<^verbatim>\<open>nitems\<close> counts the pushes to the queue\<close>

text \<open>
  C5. Whatever a call of \<^verbatim>\<open>run\<close> ends with, \<^verbatim>\<open>nitems\<close> is then the count the
  run started from plus the number of elements the run pushed to the queue
  \<^verbatim>\<open>qitems\<close>; the count it starts from is 0 for a fresh run whose archive
  manager was set up without an exception, and the previous count otherwise.
  This holds because the loop body, whether it raises or not, pushes one element
  and adds one to \<^verbatim>\<open>nitems\<close>. And the result \<^verbatim>\<open>execute_perceval_job\<close> returns
  has as \<^verbatim>\<open>nitems\<close> the number of elements all its runs together pushed to the
  queue.
\<close>

theorem C5_nitems_counts_pushes:
  "(run env job w backend_args aa resume = (out, job', w') \<longrightarrow>
      nitems (result job') =
        (case fst (archive_setup env job w aa) of
           Inl e \<Rightarrow> nitems (result job)
         | Inr j \<Rightarrow> if resume then nitems (result job) else 0) +
        (int (length (redis w' (qitems job))) - int (length (redis w (qitems job))))) \<and>
   nitems (result (fst (snd (store_item job w item)))) = nitems (result job) + 1 \<and>
   redis (snd (snd (store_item job w item))) (qitems job) =
     redis w (qitems job) @ [Pickled item] \<and>
   (execute_perceval_job env w rq_job_id b backend_args q t c aa sa = (Inr r, w_end) \<longrightarrow>
      nitems r = int (length (redis w_end q)) - int (length (redis w q)))"
proof -
  obtain e1 j1 ww1 where s: "store_item job w item = (e1, j1, ww1)"
    by (cases "store_item job w item") auto
  from store_item_frame [OF s] advance_frame [of "result job" item e1 "result j1"] s
  have "nitems (result (fst (snd (store_item job w item)))) = nitems (result job) + 1"
    "redis (snd (snd (store_item job w item))) (qitems job) =
       redis w (qitems job) @ [Pickled item]"
    by simp_all
  with run_nitems [of env job w backend_args aa resume out job' w']
    execute_perceval_job_nitems [of env w rq_job_id b backend_args q t c aa sa r w_end]
  show ?thesis by blast
qed

theorem C5_nitems_counts_pushes_witness:
  "run demo_env (demo_job ''flaky'' flaky) demo_world 0 None False =
     (Some (OtherError ''connection reset''), flaky_job1, flaky_world1) \<and>
   length (redis demo_world ''items'') = 0 \<and> length (redis flaky_world1 ''items'') = 2 \<and>
   nitems (result flaky_job1) = 2 \<and>
   nitems (result (fst (snd (store_item (demo_job ''flaky'' flaky) demo_world item_c)))) = 1 \<and>
   fst (execute_perceval_job demo_env demo_world ''j1'' ''flaky'' 0 ''items'' ''t1''
            ''commit'' None (Some \<lparr>max_retries = 3\<rparr>)) = Inr flaky_result \<and>
   length (redis (snd (execute_perceval_job demo_env demo_world ''j1'' ''flaky'' 0 ''items'' ''t1''
            ''commit'' None (Some \<lparr>max_retries = 3\<rparr>))) ''items'') = 3 \<and>
   nitems flaky_result = 3 \<and>
   fst (run demo_env flaky_job1 flaky_world1 0 (Some no_such_path) False) =
     Some (OtherError ''No such file or directory'') \<and>
   nitems (result (fst (snd (run demo_env flaky_job1 flaky_world1 0 (Some no_such_path)
     False)))) = 2"
proof -
  note t = C5_nitems_counts_pushes [where env = demo_env and job = "demo_job ''flaky'' flaky"
     and w = demo_world and backend_args = 0 and aa = None and resume = False
     and out = "Some (OtherError ''connection reset'')" and job' = flaky_job1
     and w' = flaky_world1 and item = item_c and rq_job_id = "''j1''" and b = "''flaky''"
     and q = "''items''" and t = "''t1''" and c = "''commit''"
     and sa = "Some \<lparr>max_retries = 3\<rparr>" and r = flaky_result
     and w_end = "snd (execute_perceval_job demo_env demo_world ''j1'' ''flaky'' 0 ''items''
            ''t1'' ''commit'' None (Some \<lparr>max_retries = 3\<rparr>))"]
  have l: "length (redis demo_world ''items'') = 0" "length (redis flaky_world1 ''items'') = 2"
    "qitems (demo_job ''flaky'' flaky) = ''items''" "nitems (result (demo_job ''flaky'' flaky)) = 0"
    by (simp_all add: demo_world_def flaky_world1_def demo_job_def JobResult_init_def)
  have a: "nitems (result flaky_job1) = 2"
    using t [THEN conjunct1] flaky_first_run l by (simp add: archive_setup_def)
  have b: "nitems (result (fst (snd (store_item (demo_job ''flaky'' flaky) demo_world item_c)))) = 1"
    using t [THEN conjunct2, THEN conjunct1] l by simp
  have w: "execute_perceval_job demo_env demo_world ''j1'' ''flaky'' 0 ''items'' ''t1''
            ''commit'' None (Some \<lparr>max_retries = 3\<rparr>) =
        (Inr flaky_result, snd (execute_perceval_job demo_env demo_world ''j1'' ''flaky'' 0
            ''items'' ''t1'' ''commit'' None (Some \<lparr>max_retries = 3\<rparr>)))"
    using flaky_whole_job(1) by (metis prod.collapse)
  have c: "nitems flaky_result = 3"
    using t [THEN conjunct2, THEN conjunct2, THEN conjunct2] w flaky_whole_job(2) l(1) by simp
  have f: "fst (run demo_env flaky_job1 flaky_world1 0 (Some no_such_path) False) =
     Some (OtherError ''No such file or directory'')"
    by (simp add: demo_defs op_defs)
  obtain o2 j2 w2 where r2: "run demo_env flaky_job1 flaky_world1 0 (Some no_such_path) False =
      (o2, j2, w2)"
    by (cases "run demo_env flaky_job1 flaky_world1 0 (Some no_such_path) False") auto
  have s2: "fst (archive_setup demo_env flaky_job1 flaky_world1 (Some no_such_path)) =
      Inl (OtherError ''No such file or directory'')"
    by (simp add: demo_defs op_defs)
  have q2: "redis w2 = redis flaky_world1"
    using r2 by (auto simp: demo_defs op_defs)
  have "nitems (result j2) = nitems (result flaky_job1)"
    using C5_nitems_counts_pushes [where env = demo_env and job = flaky_job1
     and w = flaky_world1 and backend_args = 0 and aa = "Some no_such_path" and resume = False
     and out = o2 and job' = j2 and w' = w2, THEN conjunct1] r2 s2 q2 by simp
  with r2 a have g: "nitems (result (fst (snd (run demo_env flaky_job1 flaky_world1 0
     (Some no_such_path) False)))) = 2" by simp
  from flaky_first_run l a b c f g flaky_whole_job show ?thesis by simp
qed

subsection \<open>C6: archive arguments for a backend without archiving\<close>

text \<open>
  C6. When the backend is registered, does not support archiving, and archive
  arguments are given, \<^verbatim>\<open>execute_perceval_job\<close> raises AttributeError and leaves
  the world as it found it: nothing was fetched, nothing was pushed, and no copy
  of the arguments was made, whereas every call of \<^verbatim>\<open>run\<close> makes one. So the
  error is raised before \<^verbatim>\<open>run\<close> is called, and the loop that retries is never
  entered.
\<close>

theorem C6_archive_unsupported_rejected:
  assumes "backends env b = Some k" and "\<not> has_archiving k" and "aa = Some a"
  shows "execute_perceval_job env w rq_job_id b backend_args q t c aa sa =
           (Inl (AttributeError ''archive attributes set but archive is not supported''), w) \<and>
         length (heap (snd (snd (run env job w backend_args aa resume)))) = length (heap w) + 1"
  using assms run_heap [of env job w backend_args aa resume]
  by (auto simp: execute_perceval_job_def PercevalJob_init_def)


theorem C6_archive_unsupported_rejected_witness:
  "backends demo_env ''plain'' = Some plain \<and> \<not> has_archiving plain \<and>
   execute_perceval_job demo_env demo_world ''j1'' ''plain'' 0 ''items'' ''t1'' ''commit''
       (Some replay) (Some \<lparr>max_retries = 3\<rparr>) =
     (Inl (AttributeError ''archive attributes set but archive is not supported''), demo_world)"
proof -
  have h: "backends demo_env ''plain'' = Some plain" "\<not> has_archiving plain"
    by (simp_all add: demo_env_def plain_def)
  from C6_archive_unsupported_rejected [OF h refl, THEN conjunct1] h show ?thesis by simp
qed

subsection \<open>C7: what a fresh run starts from\<close>

text \<open>
  C7, as stated, fails on the code. A call of \<^verbatim>\<open>run\<close> with \<^verbatim>\<open>resume=False\<close> and an
  empty archive path raises ValueError at line 138, before the result is renewed
  at line 170: the job keeps the progress it had, here two items, the identifier
  \<open>b2\<close>, the date 250 and the offset 2.
\<close>

theorem C7_counterexample:
  "fst (run demo_env flaky_job1 flaky_world1 0 (Some empty_path) False) =
     Some (ValueError ''Archive manager path cannot be empty'') \<and>
   nitems (result (fst (snd (run demo_env flaky_job1 flaky_world1 0 (Some empty_path) False)))) = 2 \<and>
   last_uuid (result (fst (snd (run demo_env flaky_job1 flaky_world1 0 (Some empty_path) False)))) =
     PStr ''b2'' \<and>
   max_date (result (fst (snd (run demo_env flaky_job1 flaky_world1 0 (Some empty_path) False)))) =
     PInt 250 \<and>
   offset (result (fst (snd (run demo_env flaky_job1 flaky_world1 0 (Some empty_path) False)))) =
     PInt 2"
  by (simp add: demo_defs op_defs)

text \<open>
  C7, amended. A call of \<^verbatim>\<open>run\<close> with \<^verbatim>\<open>resume=False\<close> in which lines 166 and
  167 raise nothing (there are no archive arguments, or their path is None, or
  it is a non-empty path at which the archive manager is built) reaches the
  fetch with a result whose \<^verbatim>\<open>last_uuid\<close>, \<^verbatim>\<open>max_date\<close> and \<^verbatim>\<open>offset\<close> are None
  and whose \<^verbatim>\<open>nitems\<close> and \<^verbatim>\<open>nresumed\<close> are 0, whatever they were; the four
  identifiers of the result are those it had; the dictionary handed to the
  backend has the contents of the caller's; and \<^verbatim>\<open>nresumed\<close> is still 0 when
  the run ends.
\<close>

theorem C7_fresh_run_resets:
  assumes "fst (archive_setup env job w aa) = Inr job0" and "ids_agree job"
  shows "\<exists>job1 w1.
     run_prepare env job w backend_args aa False = (Inr (length (heap w)), job1, w1) \<and>
     last_uuid (result job1) = PNone \<and> max_date (result job1) = PNone \<and>
     nitems (result job1) = 0 \<and> offset (result job1) = PNone \<and> nresumed (result job1) = 0 \<and>
     JobResult.job_id (result job1) = JobResult.job_id (result job) \<and>
     JobResult.task_id (result job1) = JobResult.task_id (result job) \<and>
     JobResult.backend (result job1) = JobResult.backend (result job) \<and>
     JobResult.category (result job1) = JobResult.category (result job) \<and>
     heap w1 ! length (heap w) = heap w ! backend_args \<and>
     run env job w backend_args aa False =
       (case execute env job1 w1 (length (heap w)) aa of
          ((items, fin), w2) \<Rightarrow> consume job1 w2 items fin) \<and>
     nresumed (result (fst (snd (run env job w backend_args aa False)))) = 0"
proof -
  from run_prepare_fresh_ok [OF assms(1)] obtain job1 w1 where
    p: "run_prepare env job w backend_args aa False = (Inr (length (heap w)), job1, w1)" by blast
  note f = run_prepare_fresh [OF p]
  have r: "last_uuid (result job1) = PNone" "max_date (result job1) = PNone"
     "nitems (result job1) = 0" "offset (result job1) = PNone" "nresumed (result job1) = 0"
    using f(1) by (simp_all add: JobResult_init_def)
  have i: "JobResult.job_id (result job1) = JobResult.job_id (result job)"
     "JobResult.task_id (result job1) = JobResult.task_id (result job)"
     "JobResult.backend (result job1) = JobResult.backend (result job)"
     "JobResult.category (result job1) = JobResult.category (result job)"
    using f(1) assms(2) by (simp_all add: JobResult_init_def ids_agree_def)
  have u: "run env job w backend_args aa False =
       (case execute env job1 w1 (length (heap w)) aa of
          ((items, fin), w2) \<Rightarrow> consume job1 w2 items fin)"
    by (rule run_unfold [OF p])
  have n: "nresumed (result (fst (snd (run env job w backend_args aa False)))) = 0"
    using run_nresumed [OF p] r(5) by simp
  from p r i f(2) u n show ?thesis by blast
qed

theorem C7_fresh_run_resets_witness:
  "fst (archive_setup demo_env flaky_job1 flaky_world1 (Some replay)) =
     Inr (flaky_job1\<lparr>archive_manager := Some ''/tmp/archive''\<rparr>) \<and>
   ids_agree flaky_job1 \<and> nitems (result flaky_job1) = 2 \<and>
   max_date (result flaky_job1) = PInt 250 \<and>
   fst (run_prepare demo_env flaky_job1 flaky_world1 0 (Some replay) False) = Inr 2 \<and>
   nitems (result (fst (snd (run_prepare demo_env flaky_job1 flaky_world1 0 (Some replay)
     False)))) = 0 \<and>
   max_date (result (fst (snd (run_prepare demo_env flaky_job1 flaky_world1 0 (Some replay)
     False)))) = PNone \<and>
   JobResult.job_id (result (fst (snd (run_prepare demo_env flaky_job1 flaky_world1 0
     (Some replay) False)))) = ''j1'' \<and>
   heap (snd (snd (run_prepare demo_env flaky_job1 flaky_world1 0 (Some replay) False))) ! 2 =
     heap flaky_world1 ! 0"
proof -
  have a: "fst (archive_setup demo_env flaky_job1 flaky_world1 (Some replay)) =
     Inr (flaky_job1\<lparr>archive_manager := Some ''/tmp/archive''\<rparr>)"
    by (simp add: archive_setup_def initialize_archive_manager_def replay_def demo_env_def)
  have b: "ids_agree flaky_job1" "nitems (result flaky_job1) = 2"
    "max_date (result flaky_job1) = PInt 250" "JobResult.job_id (result flaky_job1) = ''j1''"
    "length (heap flaky_world1) = 2"
    by (simp_all add: ids_agree_def flaky_job1_def demo_job_def JobResult_init_def flaky_world1_def)
  from C7_fresh_run_resets [OF a b(1), of 0] obtain job1 w1 where
    t: "run_prepare demo_env flaky_job1 flaky_world1 0 (Some replay) False =
          (Inr (length (heap flaky_world1)), job1, w1)"
       "nitems (result job1) = 0" "max_date (result job1) = PNone"
       "JobResult.job_id (result job1) = JobResult.job_id (result flaky_job1)"
       "heap w1 ! length (heap flaky_world1) = heap flaky_world1 ! 0"
    by blast
  with a b show ?thesis by simp
qed

subsection \<open>C8: the empty archive path\<close>

text \<open>
  C8, as stated, fails on the code. The constructor of \<^verbatim>\<open>PercevalJob\<close> takes no
  archive path and sets \<^verbatim>\<open>archive_manager\<close> to None: with an empty archive path
  among the arguments of \<^verbatim>\<open>execute_perceval_job\<close> the job is constructed all the
  same. The ValueError comes from \<^verbatim>\<open>run\<close>, which was called three times here,
  each call leaving its copy of the arguments on the heap.
\<close>

theorem C8_counterexample:
  "PercevalJob_init demo_env ''j1'' ''t1'' ''flaky'' ''commit'' ''items'' =
     Inr (demo_job ''flaky'' flaky) \<and>
   archive_manager (demo_job ''flaky'' flaky) = None \<and>
   archive_path empty_path = Some [] \<and>
   fst (execute_perceval_job demo_env demo_world ''j1'' ''flaky'' 0 ''items'' ''t1'' ''commit''
          (Some empty_path) (Some \<lparr>max_retries = 3\<rparr>)) =
     Inl (ValueError ''Archive manager path cannot be empty'') \<and>
   length (heap (snd (execute_perceval_job demo_env demo_world ''j1'' ''flaky'' 0 ''items'' ''t1''
          ''commit'' (Some empty_path) (Some \<lparr>max_retries = 3\<rparr>)))) = 4"
  by (simp add: run_loop.simps demo_defs op_defs)

text \<open>
  C8, amended. The constructor succeeds for a registered backend and leaves
  \<^verbatim>\<open>archive_manager\<close> None. Every call of \<^verbatim>\<open>run\<close> whose archive arguments hold
  the empty path raises ValueError, whatever \<^verbatim>\<open>fetch_from_archive\<close> and
  \<^verbatim>\<open>resume\<close> are, with the job unchanged and nothing fetched or pushed: the
  world differs only by the copy of the arguments. With a non-empty path the
  archive manager is opened at the start of \<^verbatim>\<open>run\<close>: when it is built, the job
  reaches the fetch with the archive manager of that path and this ValueError is
  not raised; when the constructor raises, \<^verbatim>\<open>run\<close> raises that exception, with
  the job unchanged and nothing fetched or pushed. With no archive arguments the
  job keeps the archive manager it had, and this ValueError is not raised.
\<close>

theorem C8_empty_archive_path:
  "(backends env b = Some k \<longrightarrow>
      (\<exists>job. PercevalJob_init env j t b c q = Inr job \<and> archive_manager job = None)) \<and>
   (aa = Some a \<and> archive_path a = Some [] \<longrightarrow>
      run env job w backend_args aa resume =
        (Some (ValueError ''Archive manager path cannot be empty''), job,
         w\<lparr>heap := heap w @ [heap w ! backend_args]\<rparr>)) \<and>
   (aa = Some a \<and> archive_path a = Some p \<and> p \<noteq> [] \<and>
    ArchiveManager env (nopen w) p = None \<longrightarrow>
      archive_manager (fst (snd (run_prepare env job w backend_args aa resume))) = Some p \<and>
      fst (run_prepare env job w backend_args aa resume) \<noteq>
        Inl (ValueError ''Archive manager path cannot be empty'')) \<and>
   (aa = Some a \<and> archive_path a = Some p \<and> p \<noteq> [] \<and>
    ArchiveManager env (nopen w) p = Some e \<longrightarrow>
      run env job w backend_args aa resume =
        (Some e, job,
         w\<lparr>heap := heap w @ [heap w ! backend_args], nopen := nopen w + 1\<rparr>)) \<and>
   (aa = None \<longrightarrow>
      archive_manager (fst (snd (run_prepare env job w backend_args aa resume))) =
        archive_manager job \<and>
      fst (run_prepare env job w backend_args aa resume) \<noteq>
        Inl (ValueError ''Archive manager path cannot be empty''))"
proof -
  have 1: "backends env b = Some k \<longrightarrow>
      (\<exists>job. PercevalJob_init env j t b c q = Inr job \<and> archive_manager job = None)"
    by (simp add: PercevalJob_init_def)
  have 2: "aa = Some a \<and> archive_path a = Some [] \<longrightarrow>
      run env job w backend_args aa resume =
        (Some (ValueError ''Archive manager path cannot be empty''), job,
         w\<lparr>heap := heap w @ [heap w ! backend_args]\<rparr>)"
    using run_prepare_empty_path [of aa a env job w backend_args resume] by (simp add: run_def)
  have 3: "aa = Some a \<and> archive_path a = Some p \<and> p \<noteq> [] \<and>
    ArchiveManager env (nopen w) p = None \<longrightarrow>
      archive_manager (fst (snd (run_prepare env job w backend_args aa resume))) = Some p \<and>
      fst (run_prepare env job w backend_args aa resume) \<noteq>
        Inl (ValueError ''Archive manager path cannot be empty'')"
    by (auto simp: run_prepare_def dict_copy_def dict_set_def archive_setup_def
             initialize_archive_manager_def
           split: option.splits sum.splits if_splits prod.splits
           dest!: unixtime_to_datetime_Inl)
  have 4: "aa = Some a \<and> archive_path a = Some p \<and> p \<noteq> [] \<and>
    ArchiveManager env (nopen w) p = Some e \<longrightarrow>
      run env job w backend_args aa resume =
        (Some e, job,
         w\<lparr>heap := heap w @ [heap w ! backend_args], nopen := nopen w + 1\<rparr>)"
    using run_prepare_open_fails [where aa = aa and a = a and p = p and w = w and env = env
      and e = e and job = job and ba = backend_args and resume = resume]
    by (simp add: run_def)
  have 5: "aa = None \<longrightarrow>
      archive_manager (fst (snd (run_prepare env job w backend_args aa resume))) =
        archive_manager job \<and>
      fst (run_prepare env job w backend_args aa resume) \<noteq>
        Inl (ValueError ''Archive manager path cannot be empty'')"
    by (auto simp: run_prepare_def dict_copy_def dict_set_def archive_setup_def
             initialize_archive_manager_def
           split: option.splits sum.splits if_splits prod.splits
           dest!: unixtime_to_datetime_Inl)
  from 1 2 3 4 5 show ?thesis by blast
qed

theorem C8_empty_archive_path_witness:
  "backends demo_env ''flaky'' = Some flaky \<and>
   PercevalJob_init demo_env ''j1'' ''t1'' ''flaky'' ''commit'' ''items'' =
     Inr (demo_job ''flaky'' flaky) \<and>
   archive_manager (demo_job ''flaky'' flaky) = None \<and>
   archive_path empty_path = Some [] \<and>
   run demo_env (demo_job ''flaky'' flaky) demo_world 0 (Some empty_path) False =
     (Some (ValueError ''Archive manager path cannot be empty''), demo_job ''flaky'' flaky,
      demo_world0) \<and>
   archive_path replay = Some ''/tmp/archive'' \<and>
   ArchiveManager demo_env (nopen demo_world) ''/tmp/archive'' = None \<and>
   archive_manager (fst (snd (run_prepare demo_env (demo_job ''flaky'' flaky) demo_world 0
                                (Some replay) False))) = Some ''/tmp/archive'' \<and>
   archive_path no_such_path = Some ''/proc/nope'' \<and>
   ArchiveManager demo_env (nopen demo_world) ''/proc/nope'' =
     Some (OtherError ''No such file or directory'') \<and>
   run demo_env (demo_job ''flaky'' flaky) demo_world 0 (Some no_such_path) False =
     (Some (OtherError ''No such file or directory''), demo_job ''flaky'' flaky,
      demo_world0\<lparr>nopen := 1\<rparr>) \<and>
   archive_manager (fst (snd (run_prepare demo_env (demo_job ''flaky'' flaky) demo_world 0
                                None False))) = None"
proof -
  have h: "backends demo_env ''flaky'' = Some flaky" "archive_path empty_path = Some []"
    "archive_path replay = Some ''/tmp/archive''"
    "demo_world\<lparr>heap := heap demo_world @ [heap demo_world ! 0]\<rparr> = demo_world0"
    "archive_path no_such_path = Some ''/proc/nope''"
    "ArchiveManager demo_env (nopen demo_world) ''/tmp/archive'' = None"
    "ArchiveManager demo_env (nopen demo_world) ''/proc/nope'' =
       Some (OtherError ''No such file or directory'')"
    "demo_world\<lparr>heap := heap demo_world @ [heap demo_world ! 0],
                 nopen := nopen demo_world + 1\<rparr> = demo_world0\<lparr>nopen := 1\<rparr>"
    by (simp_all add: demo_env_def empty_path_def replay_def no_such_path_def demo_world_def
          demo_world0_def)
  note t1 = C8_empty_archive_path [where env = demo_env and b = "''flaky''" and k = flaky
     and j = "''j1''" and t = "''t1''" and c = "''commit''" and q = "''items''"
     and aa = "Some empty_path" and a = empty_path and job = "demo_job ''flaky'' flaky"
     and w = demo_world and backend_args = 0 and resume = False]
  note t3 = C8_empty_archive_path [where env = demo_env
     and aa = "Some replay" and a = replay and job = "demo_job ''flaky'' flaky"
     and w = demo_world and backend_args = 0 and resume = False and p = "''/tmp/archive''"]
  note t4 = C8_empty_archive_path [where env = demo_env
     and aa = "Some no_such_path" and a = no_such_path and job = "demo_job ''flaky'' flaky"
     and w = demo_world and backend_args = 0 and resume = False and p = "''/proc/nope''"
     and e = "OtherError ''No such file or directory''"]
  note t5 = C8_empty_archive_path [where env = demo_env
     and aa = None and job = "demo_job ''flaky'' flaky"
     and w = demo_world and backend_args = 0 and resume = False]
  have a: "archive_manager (demo_job ''flaky'' flaky) = None"
    using t1 [THEN conjunct1] h(1) flaky_init by auto
  have b: "run demo_env (demo_job ''flaky'' flaky) demo_world 0 (Some empty_path) False =
     (Some (ValueError ''Archive manager path cannot be empty''), demo_job ''flaky'' flaky,
      demo_world0)"
    using t1 [THEN conjunct2, THEN conjunct1] h(2,4) by simp
  have c: "archive_manager (fst (snd (run_prepare demo_env (demo_job ''flaky'' flaky) demo_world 0
                                (Some replay) False))) = Some ''/tmp/archive''"
    using t3 [THEN conjunct2, THEN conjunct2, THEN conjunct1] h(3,6) by simp
  have d: "run demo_env (demo_job ''flaky'' flaky) demo_world 0 (Some no_such_path) False =
     (Some (OtherError ''No such file or directory''), demo_job ''flaky'' flaky,
      demo_world0\<lparr>nopen := 1\<rparr>)"
    using t4 [THEN conjunct2, THEN conjunct2, THEN conjunct2, THEN conjunct1] h(5,7,8) by simp
  have e: "archive_manager (fst (snd (run_prepare demo_env (demo_job ''flaky'' flaky) demo_world 0
                                None False))) = None"
    using t5 [THEN conjunct2, THEN conjunct2, THEN conjunct2, THEN conjunct2] a by simp
  from h(1,2,3,5,6,7) flaky_init a b c d e show ?thesis by simp
qed

subsection \<open>C9: every forwarded item carries the two metadata fields\<close>




subsection \<open>C10: the caller's \<^verbatim>\<open>backend_args\<close> are left as they were\<close>

text \<open>
  C10. For a dictionary \<^verbatim>\<open>backend_args\<close> the caller holds, a call of \<^verbatim>\<open>run\<close> leaves
  its contents as they were, because the dictionary \<^verbatim>\<open>run\<close> writes to and hands
  to the backend is another one; so do the retry loop and the whole of
  \<^verbatim>\<open>execute_perceval_job\<close>, whose every run therefore starts from the same
  arguments.
\<close>

theorem C10_backend_args_untouched:
  assumes "backend_args < length (heap w)"
  shows "heap (snd (snd (run env job w backend_args aa resume))) ! backend_args =
           heap w ! backend_args \<and>
         fst (run_prepare env job w backend_args aa resume) \<noteq> Inr backend_args \<and>
         heap (snd (run_loop env job w backend_args aa sa resume failures)) ! backend_args =
           heap w ! backend_args \<and>
         heap (snd (execute_perceval_job env w rq_job_id b backend_args q t c aa sa)) !
           backend_args = heap w ! backend_args"
proof -
  have 1: "heap (snd (snd (run env job w backend_args aa resume))) ! backend_args =
           heap w ! backend_args"
    using run_heap [of env job w backend_args aa resume] assms by (auto simp: nth_append)
  obtain p job1 w1 where p: "run_prepare env job w backend_args aa resume = (p, job1, w1)"
    by (cases "run_prepare env job w backend_args aa resume") auto
  have 2: "fst (run_prepare env job w backend_args aa resume) \<noteq> Inr backend_args"
    using run_prepare_world [OF p] p assms by auto
  have l: "\<And>j. heap (snd (run_loop env j w backend_args aa sa resume failures)) ! backend_args =
           heap w ! backend_args" for resume failures
    using run_loop_heap [of env _ w backend_args aa sa resume failures] assms
    by (metis nth_append)
  have 4: "heap (snd (execute_perceval_job env w rq_job_id b backend_args q t c aa sa)) !
           backend_args = heap w ! backend_args"
    using l [of _ False 0] by (simp add: execute_perceval_job_def split: sum.splits)
  from 1 2 l [of job resume failures] 4 show ?thesis by blast
qed


theorem C10_backend_args_untouched_witness:
  "(0::nat) < length (heap demo_world) \<and>
   heap demo_world ! 0 = [''from_date'' \<mapsto> PDatetime 50, ''offset'' \<mapsto> PInt 1] \<and>
   heap (snd (execute_perceval_job demo_env demo_world ''j1'' ''flaky'' 0 ''items'' ''t1''
            ''commit'' None (Some \<lparr>max_retries = 3\<rparr>))) ! 0 =
     [''from_date'' \<mapsto> PDatetime 50, ''offset'' \<mapsto> PInt 1] \<and>
   heap (snd (execute_perceval_job demo_env demo_world ''j1'' ''flaky'' 0 ''items'' ''t1''
            ''commit'' None (Some \<lparr>max_retries = 3\<rparr>))) ! 2 =
     [''from_date'' \<mapsto> PDatetime 250, ''offset'' \<mapsto> PInt 2]"
proof -
  have h: "(0::nat) < length (heap demo_world)"
    "heap demo_world ! 0 = [''from_date'' \<mapsto> PDatetime 50, ''offset'' \<mapsto> PInt 1]"
    by (simp_all add: demo_world_def)
  note t = C10_backend_args_untouched [OF h(1), of demo_env "demo_job ''flaky'' flaky" None False
     "Some \<lparr>max_retries = 3\<rparr>" 0 "''j1''" "''flaky''" "''items''" "''t1''" "''commit''"]
  have "heap (snd (execute_perceval_job demo_env demo_world ''j1'' ''flaky'' 0 ''items'' ''t1''
            ''commit'' None (Some \<lparr>max_retries = 3\<rparr>))) ! 0 =
     [''from_date'' \<mapsto> PDatetime 50, ''offset'' \<mapsto> PInt 1]"
    using t [THEN conjunct2, THEN conjunct2, THEN conjunct2] h(2) by simp
  with h flaky_whole_job_heap show ?thesis by simp
qed

end
